theory Spec2Isabelle
  imports Complex_Main "HOL-Library.Stream"
begin

section \<open>Data model (src/types/statetypes.ts)\<close>

text \<open>
  \<^verbatim>\<open>Cell = number | null\<close>: a tile value or the absence of a tile. Tile values are the
  spawned 2 and 4 and their doublings, so \<^verbatim>\<open>number\<close> is read as an integer;
  \<^verbatim>\<open>null\<close> is \<open>None\<close>. \<^verbatim>\<open>Map2048 = Cell[][]\<close> is a list of rows.
\<close>

type_synonym Cell = "int option"
type_synonym Map2048 = "Cell list list"

datatype Direction = Up | Left | Right | Down

datatype Degree = D0 | D90 | D180 | D270

text \<open>
  \<^verbatim>\<open>{ result; isMoved }\<close>: the shape shared by the value \<^verbatim>\<open>moveRowLeft\<close> returns
  (a row) and by \<^verbatim>\<open>MoveResult\<close> (a grid).
\<close>

record 'a Moved =
  result :: 'a
  isMoved :: bool

type_synonym MoveResult = "Map2048 Moved"

text \<open>
  What a call can throw. \<open>TypeError\<close> is JavaScript's own (reading \<^verbatim>\<open>.length\<close> of
  \<^verbatim>\<open>undefined\<close>, destructuring \<^verbatim>\<open>undefined\<close>); \<open>Error msg\<close> is
  \<^verbatim>\<open>throw new Error(msg)\<close>. \<open>UndefinedCell\<close> is not an exception: it marks the point
  where the JavaScript reads past the end of a row and continues with \<^verbatim>\<open>undefined\<close> in
  a grid, a value outside \<^verbatim>\<open>Cell\<close>; the model stops there.
\<close>

datatype error = TypeError | Error string | UndefinedCell

section \<open>Row collapse (App.tsx, moveRowLeft)\<close>

text \<open>The accumulator of the \<^verbatim>\<open>reduce\<close>: \<^verbatim>\<open>{ lastCell, result }\<close>.\<close>

record Acc =
  lastCell :: Cell
  accResult :: "Cell list"

definition reducer :: "Acc \<Rightarrow> Cell \<Rightarrow> Acc" where
  "reducer acc cell =
     (case cell of
        None \<Rightarrow> acc
      | Some c \<Rightarrow>
          (case lastCell acc of
             None \<Rightarrow> acc\<lparr>lastCell := Some c\<rparr>
           | Some l \<Rightarrow>
               if l = c then \<lparr>lastCell = None, accResult = accResult acc @ [Some (c * 2)]\<rparr>
               else \<lparr>lastCell = Some c, accResult = accResult acc @ [Some l]\<rparr>))"

text \<open>\<^verbatim>\<open>result[i] ?? null\<close>: an index past the end reads \<^verbatim>\<open>undefined\<close>, which becomes null.\<close>

definition nullish :: "Cell list \<Rightarrow> nat \<Rightarrow> Cell" where
  "nullish xs i = (if i < length xs then xs ! i else None)"

definition moveRowLeft :: "Cell list \<Rightarrow> Cell list Moved" where
  "moveRowLeft row =
     (let reduced = foldl reducer \<lparr>lastCell = None, accResult = []\<rparr> row;
          res = (case lastCell reduced of
                   None \<Rightarrow> accResult reduced
                 | Some l \<Rightarrow> accResult reduced @ [Some l]);
          resultRow = map (\<lambda>i. nullish res i) [0..<length row]
      in \<lparr>result = resultRow,
          isMoved = list_ex (\<lambda>i. row ! i \<noteq> resultRow ! i) [0..<length row]\<rparr>)"

section \<open>Rotation (App.tsx, rotateMapCounterClockwise)\<close>

fun rotateDegreeMap :: "Direction \<Rightarrow> Degree" where
  "rotateDegreeMap Up = D90"
| "rotateDegreeMap Right = D180"
| "rotateDegreeMap Down = D270"
| "rotateDegreeMap Left = D0"

fun revertDegreeMap :: "Direction \<Rightarrow> Degree" where
  "revertDegreeMap Up = D270"
| "revertDegreeMap Right = D180"
| "revertDegreeMap Down = D90"
| "revertDegreeMap Left = D0"

text \<open>
  \<^verbatim>\<open>map[0].length\<close> throws a TypeError on an array with no rows; \<^verbatim>\<open>every\<close> then
  compares each row's length with the first row's.
\<close>

definition validateMapIsNByM :: "Map2048 \<Rightarrow> error + bool" where
  "validateMapIsNByM m =
     (case m of
        [] \<Rightarrow> Inl TypeError
      | first # _ \<Rightarrow> Inr (list_all (\<lambda>row. length row = length first) m))"

text \<open>
  \<^verbatim>\<open>row[j]\<close>: the cell when \<open>j\<close> is in range, \<^verbatim>\<open>undefined\<close> (\<open>None\<close> here)
  otherwise. \<open>fromCells\<close> turns the array that \<^verbatim>\<open>Array.from\<close> built into a grid when
  every read was in range.
\<close>

definition cellAt :: "Cell list \<Rightarrow> nat \<Rightarrow> Cell option" where
  "cellAt row j = (if j < length row then Some (row ! j) else None)"

definition fromCells :: "Cell option list list \<Rightarrow> error + Map2048" where
  "fromCells rows =
     (if list_all (list_all (\<lambda>c. c \<noteq> None)) rows then Inr (map (map the) rows)
      else Inl UndefinedCell)"

text \<open>
  \<^verbatim>\<open>rowLength\<close> and \<^verbatim>\<open>columnLength\<close> are read before the \<^verbatim>\<open>switch\<close>, so an array
  with no rows throws for every degree. The row index always stays below \<^verbatim>\<open>rowLength\<close>;
  the column index can pass the end of a shorter row.
\<close>

definition rotateMapCounterClockwise :: "Map2048 \<Rightarrow> Degree \<Rightarrow> error + Map2048" where
  "rotateMapCounterClockwise m degree =
     (case m of
        [] \<Rightarrow> Inl TypeError
      | first # _ \<Rightarrow>
          (let rowLength = length m; columnLength = length first in
           case degree of
             D0 \<Rightarrow> Inr m
           | D90 \<Rightarrow>
               fromCells (map (\<lambda>columnIndex.
                 map (\<lambda>rowIndex. cellAt (m ! rowIndex) (columnLength - columnIndex - 1))
                   [0..<rowLength]) [0..<columnLength])
           | D180 \<Rightarrow>
               fromCells (map (\<lambda>rowIndex.
                 map (\<lambda>columnIndex.
                        cellAt (m ! (rowLength - rowIndex - 1)) (columnLength - columnIndex - 1))
                   [0..<columnLength]) [0..<rowLength])
           | D270 \<Rightarrow>
               fromCells (map (\<lambda>columnIndex.
                 map (\<lambda>rowIndex. cellAt (m ! (rowLength - rowIndex - 1)) columnIndex)
                   [0..<rowLength]) [0..<columnLength])))"

section \<open>Move (App.tsx, moveLeft and moveMapIn2048Rule)\<close>

definition moveLeft :: "Map2048 \<Rightarrow> MoveResult" where
  "moveLeft m =
     (let movedRows = map moveRowLeft m
      in \<lparr>result = map result movedRows, isMoved = list_ex isMoved movedRows\<rparr>)"

definition moveMapIn2048Rule :: "Map2048 \<Rightarrow> Direction \<Rightarrow> error + MoveResult" where
  "moveMapIn2048Rule m direction =
     (case validateMapIsNByM m of
        Inl e \<Rightarrow> Inl e
      | Inr ok \<Rightarrow>
          if \<not> ok then Inl (Error ''Map is not N by M'')
          else
            (case rotateMapCounterClockwise m (rotateDegreeMap direction) of
               Inl e \<Rightarrow> Inl e
             | Inr rotatedMap \<Rightarrow>
                 (let moved = moveLeft rotatedMap in
                  case rotateMapCounterClockwise (result moved) (revertDegreeMap direction) of
                    Inl e \<Rightarrow> Inl e
                  | Inr back \<Rightarrow> Inr \<lparr>result = back, isMoved = isMoved moved\<rparr>)))"

section \<open>Random tile (App.tsx, getRandomInt and addRandomTile)\<close>

text \<open>
  \<^verbatim>\<open>Math.random()\<close> is a global source of draws from the interval from 0 (included) to 1
  (excluded). The model threads it as a stream of reals: a draw takes the head and leaves
  the tail, so a call that draws nothing returns the stream it was given.
\<close>

type_synonym Rng = "real stream"

definition getRandomInt :: "nat \<Rightarrow> Rng \<Rightarrow> nat \<times> Rng" where
  "getRandomInt mx rng = (nat \<lfloor>shd rng * real mx\<rfloor>, stl rng)"

text \<open>The coordinates of the empty cells, in the order the nested \<^verbatim>\<open>forEach\<close> pushes them.\<close>

definition emptyCells :: "Map2048 \<Rightarrow> (nat \<times> nat) list" where
  "emptyCells m =
     concat (map (\<lambda>i. map (\<lambda>j. (i, j)) (filter (\<lambda>j. m ! i ! j = None) [0..<length (m ! i)]))
                 [0..<length m])"

text \<open>
  \<^verbatim>\<open>const [i, j] = empty[k]\<close> throws a TypeError when \<open>k\<close> is past the end
  (\<^verbatim>\<open>undefined\<close> is not iterable).
\<close>

definition addRandomTile :: "Map2048 \<Rightarrow> Rng \<Rightarrow> error + (Map2048 \<times> Rng)" where
  "addRandomTile m rng =
     (let empty = emptyCells m in
      if length empty = 0 then Inr (m, rng)
      else
        (let (k, rng1) = getRandomInt (length empty) rng in
         if \<not> k < length empty then Inl TypeError
         else
           (let (i, j) = empty ! k;
                v = (if shd rng1 < 9 / 10 then 2 else 4);
                rng2 = stl rng1;
                newMap = map (\<lambda>r. map (\<lambda>c. if r = i \<and> c = j then Some v else m ! r ! c)
                                       [0..<length (m ! r)]) [0..<length m]
            in Inr (newMap, rng2))))"

text \<open>\<^verbatim>\<open>map.flat().includes(128)\<close>: the rows joined into one array, searched for 128.\<close>

definition checkGameOver :: "Map2048 \<Rightarrow> bool" where
  "checkGameOver m = (Some 128 \<in> set (concat m))"

section \<open>Game state (App.tsx, App)\<close>

text \<open>
  The two pieces of React state: \<^verbatim>\<open>map\<close> (the field \<open>map2048\<close>, since \<open>map\<close> is the
  list function) and \<^verbatim>\<open>undoHistory\<close>, most recent snapshot last.
\<close>

record State =
  map2048 :: Map2048
  undoHistory :: "Map2048 list"

text \<open>\<^verbatim>\<open>isGameOver\<close> is computed from \<^verbatim>\<open>map\<close> on every render; it is not stored.\<close>

definition isGameOver :: "State \<Rightarrow> bool" where
  "isGameOver s = checkGameOver (map2048 s)"

definition dirMap :: "string \<Rightarrow> Direction option" where
  "dirMap key =
     (if key = ''ArrowUp'' then Some Up
      else if key = ''ArrowDown'' then Some Down
      else if key = ''ArrowLeft'' then Some Left
      else if key = ''ArrowRight'' then Some Right
      else None)"

text \<open>
  The \<^verbatim>\<open>keydown\<close> handler. A key that is not an arrow returns first, then a finished
  game returns; only then is the move computed. The two state setters run together:
  the old grid is appended to the history and the moved grid, with its new tile, becomes
  the current one. The \<open>None\<close> branch of \<open>dirMap\<close> is behind the first guard and is never
  taken.
\<close>

definition handleKey :: "State \<Rightarrow> string \<Rightarrow> Rng \<Rightarrow> error + (State \<times> Rng)" where
  "handleKey s key rng =
     (if key \<notin> set [''ArrowUp'', ''ArrowRight'', ''ArrowDown'', ''ArrowLeft''] then Inr (s, rng)
      else if isGameOver s then Inr (s, rng)
      else
        (case dirMap key of
           None \<Rightarrow> Inl TypeError
         | Some direction \<Rightarrow>
             (case moveMapIn2048Rule (map2048 s) direction of
                Inl e \<Rightarrow> Inl e
              | Inr moved \<Rightarrow>
                  if isMoved moved then
                    (case addRandomTile (result moved) rng of
                       Inl e \<Rightarrow> Inl e
                     | Inr (newMap, rng') \<Rightarrow>
                         Inr (\<lparr>map2048 = newMap,
                               undoHistory = undoHistory s @ [map2048 s]\<rparr>, rng'))
                  else Inr (s, rng))))"

definition handleUndo :: "State \<Rightarrow> State" where
  "handleUndo s =
     (if length (undoHistory s) = 0 then s
      else \<lparr>map2048 = undoHistory s ! (length (undoHistory s) - 1),
            undoHistory = butlast (undoHistory s)\<rparr>)"

section \<open>Specification-side notions\<close>

text \<open>
  What the specification says about a row, written independently of the \<^verbatim>\<open>reduce\<close>:
  \<open>tiles\<close> keeps the tile values of a row in order, \<open>mergePairs\<close> pairs equal neighbours
  from the left so that a merged tile is emitted at once and never compared again, and
  \<open>padRight\<close> fills the row up with empty cells. \<open>mergeFirstPairOnly\<close> is the other
  reading of "only the first pair merges": one merge per row and no more.
\<close>

fun tiles :: "Cell list \<Rightarrow> int list" where
  "tiles [] = []"
| "tiles (None # row) = tiles row"
| "tiles (Some c # row) = c # tiles row"

fun mergePairs :: "int list \<Rightarrow> int list" where
  "mergePairs (x # y # zs) = (if x = y then (2 * x) # mergePairs zs else x # mergePairs (y # zs))"
| "mergePairs xs = xs"

fun mergeFirstPairOnly :: "int list \<Rightarrow> int list" where
  "mergeFirstPairOnly (x # y # zs) = (if x = y then (2 * x) # zs else x # mergeFirstPairOnly (y # zs))"
| "mergeFirstPairOnly xs = xs"

definition padRight :: "nat \<Rightarrow> int list \<Rightarrow> Cell list" where
  "padRight n xs = map Some xs @ replicate (n - length xs) None"

text \<open>
  A grid is rectangular when every row is as long as the first one, and non-empty when it
  holds at least one cell (for a rectangular grid: at least one row and one column, the
  data model's invariant). \<open>rect R C\<close> fixes both dimensions; \<open>grid R C f\<close> is the
  \<open>R\<close> by \<open>C\<close> grid whose cell \<open>(i, j)\<close> is \<open>f i j\<close>; \<open>inGrid\<close> says that a
  coordinate names a cell.
\<close>

definition isRectangular :: "Map2048 \<Rightarrow> bool" where
  "isRectangular m = (\<forall>row\<in>set m. length row = length (hd m))"

definition hasCell :: "Map2048 \<Rightarrow> bool" where
  "hasCell m = (\<exists>row\<in>set m. row \<noteq> [])"

definition rect :: "nat \<Rightarrow> nat \<Rightarrow> Map2048 \<Rightarrow> bool" where
  "rect R C m = (length m = R \<and> list_all (\<lambda>row. length row = C) m)"

definition grid :: "nat \<Rightarrow> nat \<Rightarrow> (nat \<Rightarrow> nat \<Rightarrow> 'a) \<Rightarrow> 'a list list" where
  "grid R C f = map (\<lambda>i. map (\<lambda>j. f i j) [0..<C]) [0..<R]"

definition inGrid :: "Map2048 \<Rightarrow> nat \<Rightarrow> nat \<Rightarrow> bool" where
  "inGrid m r c = (r < length m \<and> c < length (m ! r))"

text \<open>
  Auxiliary notions of the proofs: what the accumulator of the \<^verbatim>\<open>reduce\<close> will emit
  (\<open>flush\<close>), the tile it still holds (\<open>pending\<close>), and a grid with one cell replaced
  (\<open>withTile\<close>).
\<close>

definition flush :: "Acc \<Rightarrow> Cell list" where
  "flush acc = (case lastCell acc of None \<Rightarrow> accResult acc | Some l \<Rightarrow> accResult acc @ [Some l])"

definition pending :: "Acc \<Rightarrow> int list" where
  "pending acc = (case lastCell acc of None \<Rightarrow> [] | Some l \<Rightarrow> [l])"

definition withTile :: "Map2048 \<Rightarrow> nat \<Rightarrow> nat \<Rightarrow> int \<Rightarrow> Map2048" where
  "withTile m i j v =
     map (\<lambda>r. map (\<lambda>c. if r = i \<and> c = j then Some v else m ! r ! c) [0..<length (m ! r)])
         [0..<length m]"

section \<open>Properties of the row collapse\<close>

lemma flush_foldl:
  "flush (foldl reducer acc row) = accResult acc @ map Some (mergePairs (pending acc @ tiles row))"
proof (induction row arbitrary: acc)
  case Nil
  show ?case by (simp add: flush_def pending_def split: option.split)
next
  case (Cons cell row)
  show ?case
  proof (cases cell)
    case None
    then show ?thesis using Cons.IH [of acc] by (simp add: reducer_def)
  next
    case (Some c)
    show ?thesis
    proof (cases "lastCell acc")
      case None
      then show ?thesis using Some Cons.IH [of "acc\<lparr>lastCell := Some c\<rparr>"]
        by (simp add: reducer_def pending_def)
    next
      case (Some l)
      then show ?thesis using \<open>cell = Some c\<close>
          Cons.IH [of "\<lparr>lastCell = None, accResult = accResult acc @ [Some (c * 2)]\<rparr>"]
          Cons.IH [of "\<lparr>lastCell = Some c, accResult = accResult acc @ [Some l]\<rparr>"]
        by (simp add: reducer_def pending_def)
    qed
  qed
qed

lemma length_mergePairs: "length (mergePairs xs) \<le> length xs"
  by (induction xs rule: mergePairs.induct) auto

lemma length_tiles: "length (tiles row) \<le> length row"
  by (induction row rule: tiles.induct) auto

lemma map_nullish:
  "length xs \<le> n \<Longrightarrow> map (nullish xs) [0..<n] = xs @ replicate (n - length xs) None"
  by (rule nth_equalityI) (auto simp: nullish_def nth_append)

lemma result_moveRowLeft: "result (moveRowLeft row) = padRight (length row) (mergePairs (tiles row))"
proof -
  let ?acc = "foldl reducer \<lparr>lastCell = None, accResult = []\<rparr> row"
  have f: "flush ?acc = map Some (mergePairs (tiles row))"
    by (simp add: flush_foldl pending_def)
  have "length (flush ?acc) \<le> length row"
    unfolding f using length_mergePairs [of "tiles row"] length_tiles [of row] by simp
  then have "map (nullish (flush ?acc)) [0..<length row]
      = flush ?acc @ replicate (length row - length (flush ?acc)) None"
    by (rule map_nullish)
  moreover have "result (moveRowLeft row) = map (nullish (flush ?acc)) [0..<length row]"
    by (simp add: moveRowLeft_def flush_def Let_def)
  ultimately show ?thesis by (simp add: f padRight_def)
qed

lemma length_result_moveRowLeft: "length (result (moveRowLeft row)) = length row"
  by (simp add: moveRowLeft_def Let_def)

lemma isMoved_moveRowLeft: "isMoved (moveRowLeft row) \<longleftrightarrow> result (moveRowLeft row) \<noteq> row"
proof -
  have "isMoved (moveRowLeft row) \<longleftrightarrow> (\<exists>i<length row. row ! i \<noteq> result (moveRowLeft row) ! i)"
    by (auto simp: moveRowLeft_def Let_def list_ex_iff)
  also have "\<dots> \<longleftrightarrow> result (moveRowLeft row) \<noteq> row"
    using length_result_moveRowLeft [of row] by (auto simp: list_eq_iff_nth_eq)
  finally show ?thesis .
qed

lemma moveRowLeft_eq: "moveRowLeft row = \<lparr>result = r, isMoved = b\<rparr> \<longleftrightarrow> result (moveRowLeft row) = r \<and> isMoved (moveRowLeft row) = b"
  by (cases "moveRowLeft row") auto

lemma mergePairs_distinct_adj: "distinct_adj xs \<Longrightarrow> mergePairs xs = xs"
  by (induction xs rule: mergePairs.induct) auto

lemma map_Some_tiles: "None \<notin> set row \<Longrightarrow> map Some (tiles row) = row"
  by (induction row rule: tiles.induct) auto

lemma tiles_all_None: "\<forall>c\<in>set row. c = None \<Longrightarrow> tiles row = []"
  by (induction row rule: tiles.induct) auto

lemma moveRowLeft_all_empty:
  assumes "\<forall>c\<in>set row. c = None"
  shows "result (moveRowLeft row) = row"
proof -
  have "row = replicate (length row) None"
    using assms by (simp add: replicate_length_same)
  then show ?thesis
    using tiles_all_None [OF assms] by (simp add: result_moveRowLeft padRight_def)
qed

lemma moveRowLeft_full_distinct:
  assumes "None \<notin> set row" and "\<forall>i. Suc i < length row \<longrightarrow> row ! i \<noteq> row ! Suc i"
  shows "result (moveRowLeft row) = row"
proof -
  have "distinct_adj row" using assms(2) by (simp add: distinct_adj_conv_nth)
  then have "distinct_adj (map Some (tiles row))" using map_Some_tiles [OF assms(1)] by simp
  then have "distinct_adj (tiles row)" by (rule distinct_adj_mapD)
  then have "mergePairs (tiles row) = tiles row" by (rule mergePairs_distinct_adj)
  moreover have "length (tiles row) = length row"
    using arg_cong [OF map_Some_tiles [OF assms(1)], of length] by simp
  ultimately show ?thesis
    using map_Some_tiles [OF assms(1)] by (simp add: result_moveRowLeft padRight_def)
qed

text \<open>
  Claim C1, as the code has it: the row collapse pairs equal neighbouring tiles from the
  left, each tile taking part in at most one merge, and a merged tile is never merged
  again in the same pass. The row \<^verbatim>\<open>[2,2,2,null]\<close> gives \<^verbatim>\<open>[4,2,null,null]\<close> with
  \<^verbatim>\<open>isMoved\<close> true, and for every value \<open>v\<close> the row \<^verbatim>\<open>[v,v,v]\<close> gives
  \<^verbatim>\<open>[2v,v,null]\<close>.
\<close>

theorem moveRowLeft_pairs_merge_once:
  "result (moveRowLeft row) = padRight (length row) (mergePairs (tiles row))
   \<and> moveRowLeft [Some 2, Some 2, Some 2, None]
       = \<lparr>result = [Some 4, Some 2, None, None], isMoved = True\<rparr>
   \<and> moveRowLeft [Some v, Some v, Some v]
       = \<lparr>result = [Some (2 * v), Some v, None], isMoved = True\<rparr>"
proof -
  have "moveRowLeft [Some 2, Some 2, Some 2, None]
       = \<lparr>result = [Some 4, Some 2, None, None], isMoved = True\<rparr>"
    by (simp add: moveRowLeft_def reducer_def nullish_def)
  moreover have "moveRowLeft [Some v, Some v, Some v]
       = \<lparr>result = [Some (2 * v), Some v, None], isMoved = True\<rparr>"
    by (simp add: moveRowLeft_def reducer_def nullish_def)
  ultimately show ?thesis by (simp add: result_moveRowLeft)
qed

text \<open>
  An instance of C1: after the pair of 2s has merged into a 4, that 4 is not merged with
  the 4 that follows it.
\<close>

theorem moveRowLeft_pairs_merge_once_witness:
  "result (moveRowLeft [Some 2, Some 2, None, Some 4]) = [Some 4, Some 4, None, None]"
  using moveRowLeft_pairs_merge_once [of "[Some 2, Some 2, None, Some 4]" 1]
  by (simp add: padRight_def)

text \<open>
  Claim C1 as it is worded ("merges only the first adjacent equal pair it encounters")
  does not hold for a row with two separate pairs: in \<^verbatim>\<open>[2,2,4,4]\<close> both pairs merge,
  where merging the first pair only would leave \<^verbatim>\<open>[4,4,4,null]\<close>.
\<close>

theorem moveRowLeft_two_pairs_counterexample:
  "moveRowLeft [Some 2, Some 2, Some 4, Some 4]
     = \<lparr>result = [Some 4, Some 8, None, None], isMoved = True\<rparr>
   \<and> padRight 4 (mergeFirstPairOnly (tiles [Some 2, Some 2, Some 4, Some 4]))
     = [Some 4, Some 4, Some 4, None]
   \<and> result (moveRowLeft [Some 2, Some 2, Some 4, Some 4])
     \<noteq> padRight 4 (mergeFirstPairOnly (tiles [Some 2, Some 2, Some 4, Some 4]))"
  by (simp add: moveRowLeft_def reducer_def nullish_def padRight_def)

text \<open>
  Claim C9: \<^verbatim>\<open>isMoved\<close> is true exactly when the returned row differs from the input
  row at some position (the two rows have the same length, so this is the same as the rows
  being different); a row of empty cells only, and a row with no empty cell and no two
  equal neighbours, come back identical with \<^verbatim>\<open>isMoved\<close> false.
\<close>

theorem moveRowLeft_isMoved_iff_differs:
  "(isMoved (moveRowLeft row) \<longleftrightarrow> (\<exists>i<length row. result (moveRowLeft row) ! i \<noteq> row ! i))
   \<and> length (result (moveRowLeft row)) = length row
   \<and> (isMoved (moveRowLeft row) \<longleftrightarrow> result (moveRowLeft row) \<noteq> row)
   \<and> ((\<forall>c\<in>set row. c = None) \<longrightarrow> moveRowLeft row = \<lparr>result = row, isMoved = False\<rparr>)
   \<and> (None \<notin> set row \<and> (\<forall>i. Suc i < length row \<longrightarrow> row ! i \<noteq> row ! Suc i)
        \<longrightarrow> moveRowLeft row = \<lparr>result = row, isMoved = False\<rparr>)"
proof -
  have len: "length (result (moveRowLeft row)) = length row"
    by (rule length_result_moveRowLeft)
  have neq: "isMoved (moveRowLeft row) \<longleftrightarrow> result (moveRowLeft row) \<noteq> row"
    by (rule isMoved_moveRowLeft)
  have idx: "isMoved (moveRowLeft row) \<longleftrightarrow> (\<exists>i<length row. result (moveRowLeft row) ! i \<noteq> row ! i)"
    unfolding neq using len by (auto simp: list_eq_iff_nth_eq)
  have e: "(\<forall>c\<in>set row. c = None) \<longrightarrow> moveRowLeft row = \<lparr>result = row, isMoved = False\<rparr>"
    using moveRowLeft_all_empty [of row] neq by (simp add: moveRowLeft_eq)
  have f: "None \<notin> set row \<and> (\<forall>i. Suc i < length row \<longrightarrow> row ! i \<noteq> row ! Suc i)
        \<longrightarrow> moveRowLeft row = \<lparr>result = row, isMoved = False\<rparr>"
    using moveRowLeft_full_distinct [of row] neq by (simp add: moveRowLeft_eq)
  from idx len neq e f show ?thesis by blast
qed

text \<open>
  Instances of C9: an all-empty row, a full row without equal neighbours, and a row that
  slides.
\<close>

theorem moveRowLeft_isMoved_iff_differs_witness:
  "moveRowLeft [None, None, None, None] = \<lparr>result = [None, None, None, None], isMoved = False\<rparr>
   \<and> moveRowLeft [Some 2, Some 4, Some 2, Some 8]
       = \<lparr>result = [Some 2, Some 4, Some 2, Some 8], isMoved = False\<rparr>
   \<and> isMoved (moveRowLeft [None, Some 2])
   \<and> result (moveRowLeft [None, Some 2]) \<noteq> [None, Some 2]"
proof -
  have a: "\<forall>c\<in>set [None, None, None, None :: Cell]. c = None" by simp
  have b: "None \<notin> set [Some 2, Some 4, Some 2, Some (8::int)]" by simp
  have c: "\<forall>i. Suc i < length [Some 2, Some 4, Some 2, Some (8::int)]
      \<longrightarrow> [Some 2, Some 4, Some 2, Some (8::int)] ! i \<noteq> [Some 2, Some 4, Some 2, Some 8] ! Suc i"
    by (simp add: nth_Cons split: nat.split)
  have d: "\<exists>i<length [None, Some (2::int)]. result (moveRowLeft [None, Some 2]) ! i \<noteq> [None, Some 2] ! i"
    by (rule exI [of _ 0]) (simp add: moveRowLeft_def reducer_def nullish_def)
  show ?thesis
    using a b c d moveRowLeft_isMoved_iff_differs [of "[None, None, None, None]"]
      moveRowLeft_isMoved_iff_differs [of "[Some 2, Some 4, Some 2, Some 8]"]
      moveRowLeft_isMoved_iff_differs [of "[None, Some 2]"]
    by blast
qed

section \<open>Properties of the rotation\<close>

lemma rect_grid: "rect R C (grid R C f)"
  by (simp add: rect_def grid_def list_all_iff)

lemma grid_nth: "i < R \<Longrightarrow> j < C \<Longrightarrow> grid R C f ! i ! j = f i j"
  by (simp add: grid_def)

lemma grid_cong: "(\<And>i j. i < R \<Longrightarrow> j < C \<Longrightarrow> f i j = g i j) \<Longrightarrow> grid R C f = grid R C g"
  by (simp add: grid_def)

lemma rect_row: "rect R C m \<Longrightarrow> i < R \<Longrightarrow> length (m ! i) = C"
  by (simp add: rect_def list_all_length)

lemma rect_eq_grid: "rect R C m \<Longrightarrow> m = grid R C (\<lambda>i j. m ! i ! j)"
proof -
  assume r: "rect R C m"
  have "m ! i = map (\<lambda>j. m ! i ! j) [0..<C]" if "i < R" for i
    using rect_row [OF r that] by (metis map_nth)
  then show ?thesis
    using r by (intro nth_equalityI) (auto simp: grid_def rect_def)
qed

lemma fromCells_Some:
  "fromCells (map (\<lambda>a. map (\<lambda>b. Some (f a b)) [0..<C]) [0..<R]) = Inr (grid R C f)"
  by (simp add: fromCells_def grid_def list_all_iff comp_def)

lemma cells_cong:
  "(\<And>a b. a < R \<Longrightarrow> b < C \<Longrightarrow> h a b = Some (f a b))
   \<Longrightarrow> fromCells (map (\<lambda>a. map (\<lambda>b. h a b) [0..<C]) [0..<R]) = Inr (grid R C f)"
proof -
  assume h: "\<And>a b. a < R \<Longrightarrow> b < C \<Longrightarrow> h a b = Some (f a b)"
  have "map (\<lambda>a. map (\<lambda>b. h a b) [0..<C]) [0..<R] = map (\<lambda>a. map (\<lambda>b. Some (f a b)) [0..<C]) [0..<R]"
    using h by simp
  then show ?thesis by (simp only: fromCells_Some)
qed

lemma rect_Cons: "rect R C m \<Longrightarrow> 0 < R \<Longrightarrow> \<exists>first rest. m = first # rest \<and> length first = C"
  by (cases m) (auto simp: rect_def)

lemma rotate_D0: "rect R C m \<Longrightarrow> 0 < R \<Longrightarrow> rotateMapCounterClockwise m D0 = Inr m"
  by (cases m) (auto simp: rotateMapCounterClockwise_def rect_def)

lemma rotate_D90:
  assumes "rect R C m" and "0 < R"
  shows "rotateMapCounterClockwise m D90 = Inr (grid C R (\<lambda>c r. m ! r ! (C - c - 1)))"
proof -
  obtain first rest where m: "m = first # rest" and f: "length first = C"
    using rect_Cons [OF assms] by blast
  have len: "length m = R" using assms(1) by (simp add: rect_def)
  have "fromCells (map (\<lambda>c. map (\<lambda>r. cellAt (m ! r) (C - c - 1)) [0..<R]) [0..<C])
      = Inr (grid C R (\<lambda>c r. m ! r ! (C - c - 1)))"
    by (rule cells_cong) (simp add: cellAt_def rect_row [OF assms(1)])
  then show ?thesis
    using f len unfolding rotateMapCounterClockwise_def m by (simp add: Let_def)
qed

lemma rotate_D180:
  assumes "rect R C m" and "0 < R"
  shows "rotateMapCounterClockwise m D180 = Inr (grid R C (\<lambda>r c. m ! (R - r - 1) ! (C - c - 1)))"
proof -
  obtain first rest where m: "m = first # rest" and f: "length first = C"
    using rect_Cons [OF assms] by blast
  have len: "length m = R" using assms(1) by (simp add: rect_def)
  have "fromCells (map (\<lambda>r. map (\<lambda>c. cellAt (m ! (R - r - 1)) (C - c - 1)) [0..<C]) [0..<R])
      = Inr (grid R C (\<lambda>r c. m ! (R - r - 1) ! (C - c - 1)))"
    by (rule cells_cong) (simp add: cellAt_def rect_row [OF assms(1)])
  then show ?thesis
    using f len unfolding rotateMapCounterClockwise_def m by (simp add: Let_def)
qed

lemma rotate_D270:
  assumes "rect R C m" and "0 < R"
  shows "rotateMapCounterClockwise m D270 = Inr (grid C R (\<lambda>c r. m ! (R - r - 1) ! c))"
proof -
  obtain first rest where m: "m = first # rest" and f: "length first = C"
    using rect_Cons [OF assms] by blast
  have len: "length m = R" using assms(1) by (simp add: rect_def)
  have "fromCells (map (\<lambda>c. map (\<lambda>r. cellAt (m ! (R - r - 1)) c) [0..<R]) [0..<C])
      = Inr (grid C R (\<lambda>c r. m ! (R - r - 1) ! c))"
    by (rule cells_cong) (simp add: cellAt_def rect_row [OF assms(1)])
  then show ?thesis
    using f len unfolding rotateMapCounterClockwise_def m by (simp add: Let_def)
qed

lemma rect_isRectangular:
  "m \<noteq> [] \<Longrightarrow> isRectangular m \<longleftrightarrow> rect (length m) (length (hd m)) m"
  by (simp add: isRectangular_def rect_def list_all_iff)

lemma hasCell_rect: "isRectangular m \<Longrightarrow> hasCell m \<longleftrightarrow> m \<noteq> [] \<and> hd m \<noteq> []"
  by (cases m) (auto simp: isRectangular_def hasCell_def)

text \<open>
  Claim C3: on a rectangular, non-empty grid, four rotations by 90 degrees in a row all
  return, and the fourth returns the grid the first one was given.
\<close>

theorem rotate_90_four_times:
  assumes "isRectangular m" and "hasCell m"
  shows "\<exists>m1 m2 m3. rotateMapCounterClockwise m D90 = Inr m1
           \<and> rotateMapCounterClockwise m1 D90 = Inr m2
           \<and> rotateMapCounterClockwise m2 D90 = Inr m3
           \<and> rotateMapCounterClockwise m3 D90 = Inr m"
proof -
  define R where "R = length m"
  define C where "C = length (hd m)"
  have ne: "m \<noteq> []" and "hd m \<noteq> []" using assms by (simp_all add: hasCell_rect)
  then have R: "0 < R" and C: "0 < C" by (simp_all add: R_def C_def)
  have r0: "rect R C m"
    using assms(1) ne by (simp add: rect_isRectangular R_def C_def)
  define m1 where "m1 = grid C R (\<lambda>c r. m ! r ! (C - c - 1))"
  define m2 where "m2 = grid R C (\<lambda>c r. m1 ! r ! (R - c - 1))"
  define m3 where "m3 = grid C R (\<lambda>c r. m2 ! r ! (C - c - 1))"
  have r1: "rect C R m1" and r2: "rect R C m2" and r3: "rect C R m3"
    by (simp_all add: m1_def m2_def m3_def rect_grid)
  have s1: "rotateMapCounterClockwise m D90 = Inr m1"
    unfolding m1_def by (rule rotate_D90 [OF r0 R])
  have s2: "rotateMapCounterClockwise m1 D90 = Inr m2"
    unfolding m2_def by (rule rotate_D90 [OF r1 C])
  have s3: "rotateMapCounterClockwise m2 D90 = Inr m3"
    unfolding m3_def by (rule rotate_D90 [OF r2 R])
  have s4: "rotateMapCounterClockwise m3 D90 = Inr (grid R C (\<lambda>c r. m3 ! r ! (R - c - 1)))"
    by (rule rotate_D90 [OF r3 C])
  have "grid R C (\<lambda>c r. m3 ! r ! (R - c - 1)) = grid R C (\<lambda>i j. m ! i ! j)"
  proof (rule grid_cong)
    fix i j assume i: "i < R" and j: "j < C"
    have "m3 ! j ! (R - i - 1) = m2 ! (R - i - 1) ! (C - j - 1)"
      using i j by (simp add: m3_def grid_nth)
    also have "\<dots> = m1 ! (C - j - 1) ! (R - (R - i - 1) - 1)"
      using i j by (simp add: m2_def grid_nth)
    also have "\<dots> = m ! (R - (R - i - 1) - 1) ! (C - (C - j - 1) - 1)"
      using i j by (simp add: m1_def grid_nth)
    also have "\<dots> = m ! i ! j" using i j by simp
    finally show "m3 ! j ! (R - i - 1) = m ! i ! j" .
  qed
  also have "\<dots> = m" using rect_eq_grid [OF r0] by simp
  finally have "rotateMapCounterClockwise m3 D90 = Inr m" using s4 by simp
  with s1 s2 s3 show ?thesis by blast
qed

text \<open>
  An instance of C3 on a grid of two rows and three columns.
\<close>

theorem rotate_90_four_times_witness:
  "\<exists>m1 m2 m3.
      rotateMapCounterClockwise [[Some 2, None, Some 4], [None, Some 8, Some 16]] D90 = Inr m1
    \<and> rotateMapCounterClockwise m1 D90 = Inr m2
    \<and> rotateMapCounterClockwise m2 D90 = Inr m3
    \<and> rotateMapCounterClockwise m3 D90 = Inr [[Some 2, None, Some 4], [None, Some 8, Some 16]]"
proof -
  let ?m = "[[Some 2, None, Some 4], [None, Some 8, Some (16::int)]]"
  have a: "isRectangular ?m" by (simp add: isRectangular_def)
  have b: "hasCell ?m" by (simp add: hasCell_def)
  show ?thesis by (rule rotate_90_four_times [OF a b])
qed

section \<open>Properties of the move\<close>

lemma moveLeft_rect: "rect R C m \<Longrightarrow> rect R C (result (moveLeft m))"
  by (simp add: rect_def moveLeft_def Let_def list_all_iff length_result_moveRowLeft)

lemma validate_Inr: "m \<noteq> [] \<Longrightarrow> validateMapIsNByM m = Inr (isRectangular m)"
  by (cases m) (auto simp: validateMapIsNByM_def isRectangular_def list_all_iff)

lemma rotate_forward:
  assumes "rect R C m" and "0 < R"
  shows "\<exists>m'. rotateMapCounterClockwise m (rotateDegreeMap d) = Inr m'
      \<and> (if d = Up \<or> d = Down then rect C R m' else rect R C m')"
  using rotate_D0 [OF assms] rotate_D90 [OF assms] rotate_D180 [OF assms] rotate_D270 [OF assms]
    assms(1) by (cases d) (simp_all add: rect_grid)

lemma rotate_revert:
  assumes "rect R C m" and "0 < R"
  shows "\<exists>m'. rotateMapCounterClockwise m (revertDegreeMap d) = Inr m'
      \<and> (if d = Up \<or> d = Down then rect C R m' else rect R C m')"
  using rotate_D0 [OF assms] rotate_D90 [OF assms] rotate_D180 [OF assms] rotate_D270 [OF assms]
    assms(1) by (cases d) (simp_all add: rect_grid)

lemma move_rect:
  assumes r: "rect R C m" and R: "0 < R" and C: "0 < C"
  shows "\<exists>mv. moveMapIn2048Rule m d = Inr mv \<and> rect R C (result mv)"
proof -
  have ne: "m \<noteq> []" using r R by (auto simp: rect_def)
  have "length (hd m) = C" using rect_Cons [OF r R] by auto
  then have v: "validateMapIsNByM m = Inr True"
    using r ne by (simp add: validate_Inr rect_isRectangular rect_def)
  show ?thesis
  proof (cases "d = Up \<or> d = Down")
    case True
    obtain m1 where f: "rotateMapCounterClockwise m (rotateDegreeMap d) = Inr m1" and r1: "rect C R m1"
      using rotate_forward [OF r R, of d] True by auto
    obtain m2 where b: "rotateMapCounterClockwise (result (moveLeft m1)) (revertDegreeMap d) = Inr m2"
      and r2: "rect R C m2"
      using rotate_revert [OF moveLeft_rect [OF r1] C, of d] True by auto
    show ?thesis using v f b r2 by (simp add: moveMapIn2048Rule_def Let_def)
  next
    case False
    obtain m1 where f: "rotateMapCounterClockwise m (rotateDegreeMap d) = Inr m1" and r1: "rect R C m1"
      using rotate_forward [OF r R, of d] False by auto
    obtain m2 where b: "rotateMapCounterClockwise (result (moveLeft m1)) (revertDegreeMap d) = Inr m2"
      and r2: "rect R C m2"
      using rotate_revert [OF moveLeft_rect [OF r1] R, of d] False by auto
    show ?thesis using v f b r2 by (simp add: moveMapIn2048Rule_def Let_def)
  qed
qed

text \<open>
  Claim C4: on a non-empty grid, a move in any direction throws exactly when the grid is
  not rectangular, and what it throws then is the error "Map is not N by M"; on a
  rectangular grid it returns.
\<close>

theorem move_raises_iff_not_rectangular:
  assumes "hasCell m"
  shows "((\<exists>e. moveMapIn2048Rule m d = Inl e) \<longleftrightarrow> \<not> isRectangular m)
       \<and> (\<not> isRectangular m \<longrightarrow> moveMapIn2048Rule m d = Inl (Error ''Map is not N by M''))"
proof (cases "isRectangular m")
  case True
  then have ne: "m \<noteq> []" and c: "hd m \<noteq> []" using assms by (simp_all add: hasCell_rect)
  have "rect (length m) (length (hd m)) m" using True ne by (simp add: rect_isRectangular)
  from move_rect [OF this, of d] ne c
  obtain mv where "moveMapIn2048Rule m d = Inr mv" by auto
  then show ?thesis using True by simp
next
  case False
  have "m \<noteq> []" using assms by (auto simp: hasCell_def)
  then have "moveMapIn2048Rule m d = Inl (Error ''Map is not N by M'')"
    using False by (simp add: moveMapIn2048Rule_def validate_Inr)
  then show ?thesis using False by simp
qed

text \<open>
  Instances of C4: a grid whose second row is shorter, and a two by two grid.
\<close>

theorem move_raises_iff_not_rectangular_witness:
  "moveMapIn2048Rule [[Some 2, Some 2], [None]] Right = Inl (Error ''Map is not N by M'')
   \<and> \<not> (\<exists>e. moveMapIn2048Rule [[Some 2, Some 2], [None, Some 4]] Up = Inl e)"
proof -
  let ?bad = "[[Some 2, Some 2], [None :: Cell]]"
  let ?good = "[[Some 2, Some 2], [None, Some (4::int)]]"
  have a: "hasCell ?bad" and b: "hasCell ?good" by (simp_all add: hasCell_def)
  have c: "\<not> isRectangular ?bad" and d: "isRectangular ?good" by (simp_all add: isRectangular_def)
  show ?thesis
    using move_raises_iff_not_rectangular [OF a, of Right]
      move_raises_iff_not_rectangular [OF b, of Up] c d by blast
qed

text \<open>
  Claim C10: on a rectangular, non-empty grid a move in any direction returns a grid of
  the same shape: as many rows as the input, each as long as the input's rows.
\<close>

theorem move_preserves_shape:
  assumes "isRectangular m" and "hasCell m"
  shows "\<exists>mv. moveMapIn2048Rule m d = Inr mv
           \<and> length (result mv) = length m
           \<and> (\<forall>row\<in>set (result mv). length row = length (hd m))"
proof -
  have ne: "m \<noteq> []" and c: "hd m \<noteq> []" using assms by (simp_all add: hasCell_rect)
  have "rect (length m) (length (hd m)) m" using assms(1) ne by (simp add: rect_isRectangular)
  from move_rect [OF this, of d] ne c
  show ?thesis by (auto simp: rect_def list_all_iff)
qed

text \<open>
  An instance of C10: a move up on a grid of two rows and three columns.
\<close>

theorem move_preserves_shape_witness:
  "\<exists>mv. moveMapIn2048Rule [[Some 2, None, Some 2], [None, Some 2, Some 4]] Up = Inr mv
     \<and> length (result mv) = 2
     \<and> list_all (\<lambda>row. length row = 3) (result mv)"
proof -
  let ?m = "[[Some 2, None, Some 2], [None, Some 2, Some (4::int)]]"
  have a: "isRectangular ?m" by (simp add: isRectangular_def)
  have b: "hasCell ?m" by (simp add: hasCell_def)
  show ?thesis
    using move_preserves_shape [OF a b, of Up] by (simp add: list_all_iff numeral_2_eq_2 numeral_3_eq_3)
qed

text \<open>
  The boundary of C3, C4 and C10: a grid with a row but no column has no cell. A move to
  the left or right returns it; a move up or down rotates it into an array with no rows,
  and the rotation back throws a TypeError at \<^verbatim>\<open>map[0].length\<close>. The data model keeps
  such grids out (rows and columns are both non-empty).
\<close>

lemma move_without_columns:
  "moveMapIn2048Rule [[]] Left = Inr \<lparr>result = [[]], isMoved = False\<rparr>
   \<and> moveMapIn2048Rule [[]] Up = Inl TypeError
   \<and> moveMapIn2048Rule [[]] Down = Inl TypeError"
  by (simp add: moveMapIn2048Rule_def validateMapIsNByM_def rotateMapCounterClockwise_def
      fromCells_def moveLeft_def moveRowLeft_def)

section \<open>Properties of the random tile\<close>

lemma emptyCells_set:
  "(r, c) \<in> set (emptyCells m) \<longleftrightarrow> inGrid m r c \<and> m ! r ! c = None"
  by (auto simp: emptyCells_def inGrid_def)

lemma emptyCells_Nil: "emptyCells m = [] \<longleftrightarrow> (\<forall>r c. inGrid m r c \<longrightarrow> m ! r ! c \<noteq> None)"
proof
  assume "emptyCells m = []"
  then show "\<forall>r c. inGrid m r c \<longrightarrow> m ! r ! c \<noteq> None"
    using emptyCells_set [of _ _ m] by auto
next
  assume h: "\<forall>r c. inGrid m r c \<longrightarrow> m ! r ! c \<noteq> None"
  show "emptyCells m = []"
  proof (rule ccontr)
    assume "emptyCells m \<noteq> []"
    then obtain x where "x \<in> set (emptyCells m)" by (cases "emptyCells m") auto
    then obtain r c where "(r, c) \<in> set (emptyCells m)" by (metis surj_pair)
    then have "inGrid m r c" and "m ! r ! c = None" by (simp_all add: emptyCells_set)
    then show False using h by blast
  qed
qed

lemma getRandomInt_range:
  assumes "0 \<le> shd rng" and "shd rng < 1" and "0 < n"
  shows "fst (getRandomInt n rng) < n"
proof -
  have "shd rng * real n < real n" using assms by simp
  then have "\<lfloor>shd rng * real n\<rfloor> < int n" by (simp add: floor_less_iff)
  moreover have "0 \<le> \<lfloor>shd rng * real n\<rfloor>" using assms by simp
  ultimately have "nat \<lfloor>shd rng * real n\<rfloor> < n" by linarith
  then show ?thesis by (simp add: getRandomInt_def)
qed

lemma withTile_length: "length (withTile m i j v) = length m"
  by (simp add: withTile_def)

lemma withTile_row: "r < length m \<Longrightarrow> length (withTile m i j v ! r) = length (m ! r)"
  by (simp add: withTile_def)

lemma withTile_nth:
  "inGrid m r c \<Longrightarrow> withTile m i j v ! r ! c = (if r = i \<and> c = j then Some v else m ! r ! c)"
  by (simp add: withTile_def inGrid_def)

lemma addRandomTile_full: "emptyCells m = [] \<Longrightarrow> addRandomTile m rng = Inr (m, rng)"
  by (simp add: addRandomTile_def)

lemma addRandomTile_place:
  assumes "0 \<le> shd rng" and "shd rng < 1" and "emptyCells m \<noteq> []"
  shows "\<exists>i j v. (i, j) \<in> set (emptyCells m) \<and> (v = 2 \<or> v = 4)
           \<and> addRandomTile m rng = Inr (withTile m i j v, stl (stl rng))"
proof -
  define k where "k = fst (getRandomInt (length (emptyCells m)) rng)"
  have k: "k < length (emptyCells m)"
    unfolding k_def using assms by (intro getRandomInt_range) simp_all
  obtain i j where ij: "emptyCells m ! k = (i, j)" by (cases "emptyCells m ! k")
  define v :: int where "v = (if shd (stl rng) < 9 / 10 then 2 else 4)"
  have g: "getRandomInt (length (emptyCells m)) rng = (k, stl rng)"
    by (simp add: k_def getRandomInt_def)
  have "addRandomTile m rng = Inr (withTile m i j v, stl (stl rng))"
    using assms(3) k ij g by (simp add: addRandomTile_def withTile_def v_def Let_def)
  moreover have "(i, j) \<in> set (emptyCells m)" using k ij by (metis nth_mem)
  moreover have "v = 2 \<or> v = 4" by (simp add: v_def)
  ultimately show ?thesis by blast
qed

lemma addRandomTile_returns:
  assumes "0 \<le> shd rng" and "shd rng < 1"
  shows "\<exists>m' rng'. addRandomTile m rng = Inr (m', rng')"
proof (cases "emptyCells m = []")
  case True
  then show ?thesis by (simp add: addRandomTile_full)
next
  case False
  from addRandomTile_place [OF assms False] show ?thesis by blast
qed

text \<open>
  Claim C7: with a draw in the range of \<^verbatim>\<open>Math.random()\<close>, \<^verbatim>\<open>addRandomTile\<close> returns
  a grid of the same shape in which at most one cell differs from the input; a cell that
  differs was empty and now holds 2 or 4. When exactly one cell is empty the tile lands
  in that cell and every other cell is as before; when no cell is empty the grid comes
  back as it was, and nothing is drawn.
\<close>

theorem addRandomTile_changes_one_empty_cell:
  assumes "0 \<le> shd rng" and "shd rng < 1"
  shows "\<exists>m' rng'. addRandomTile m rng = Inr (m', rng')
     \<and> length m' = length m
     \<and> (\<forall>r<length m. length (m' ! r) = length (m ! r))
     \<and> (\<forall>r c r' c'. inGrid m r c \<and> m' ! r ! c \<noteq> m ! r ! c
            \<and> inGrid m r' c' \<and> m' ! r' ! c' \<noteq> m ! r' ! c' \<longrightarrow> r = r' \<and> c = c')
     \<and> (\<forall>r c. inGrid m r c \<and> m' ! r ! c \<noteq> m ! r ! c
            \<longrightarrow> m ! r ! c = None \<and> (m' ! r ! c = Some 2 \<or> m' ! r ! c = Some 4))
     \<and> (\<forall>i j. inGrid m i j \<and> m ! i ! j = None
              \<and> (\<forall>r c. inGrid m r c \<and> m ! r ! c = None \<longrightarrow> r = i \<and> c = j)
            \<longrightarrow> (m' ! i ! j = Some 2 \<or> m' ! i ! j = Some 4)
              \<and> (\<forall>r c. inGrid m r c \<and> \<not> (r = i \<and> c = j) \<longrightarrow> m' ! r ! c = m ! r ! c))
     \<and> ((\<forall>r c. inGrid m r c \<longrightarrow> m ! r ! c \<noteq> None) \<longrightarrow> m' = m \<and> rng' = rng)"
proof (cases "emptyCells m = []")
  case True
  then have "addRandomTile m rng = Inr (m, rng)" by (rule addRandomTile_full)
  moreover have "\<forall>r c. inGrid m r c \<longrightarrow> m ! r ! c \<noteq> None"
    using True by (simp add: emptyCells_Nil)
  ultimately show ?thesis by auto
next
  case False
  from addRandomTile_place [OF assms False]
  obtain i j v where e: "(i, j) \<in> set (emptyCells m)" and v: "v = 2 \<or> v = 4"
    and a: "addRandomTile m rng = Inr (withTile m i j v, stl (stl rng))" by blast
  have ij: "inGrid m i j" and n: "m ! i ! j = None" using e by (simp_all add: emptyCells_set)
  let ?m' = "withTile m i j v"
  have nth: "\<And>r c. inGrid m r c \<Longrightarrow> ?m' ! r ! c = (if r = i \<and> c = j then Some v else m ! r ! c)"
    by (rule withTile_nth)
  have p1: "length ?m' = length m" by (rule withTile_length)
  have p2: "\<forall>r<length m. length (?m' ! r) = length (m ! r)" by (simp add: withTile_row)
  have p3: "\<forall>r c r' c'. inGrid m r c \<and> ?m' ! r ! c \<noteq> m ! r ! c
            \<and> inGrid m r' c' \<and> ?m' ! r' ! c' \<noteq> m ! r' ! c' \<longrightarrow> r = r' \<and> c = c'"
    using nth by (metis (full_types))
  have p4: "\<forall>r c. inGrid m r c \<and> ?m' ! r ! c \<noteq> m ! r ! c
            \<longrightarrow> m ! r ! c = None \<and> (?m' ! r ! c = Some 2 \<or> ?m' ! r ! c = Some 4)"
    using nth n v by (metis (full_types))
  have p5: "\<forall>i' j'. inGrid m i' j' \<and> m ! i' ! j' = None
              \<and> (\<forall>r c. inGrid m r c \<and> m ! r ! c = None \<longrightarrow> r = i' \<and> c = j')
            \<longrightarrow> (?m' ! i' ! j' = Some 2 \<or> ?m' ! i' ! j' = Some 4)
              \<and> (\<forall>r c. inGrid m r c \<and> \<not> (r = i' \<and> c = j') \<longrightarrow> ?m' ! r ! c = m ! r ! c)"
  proof (intro allI impI)
    fix i' j'
    assume h: "inGrid m i' j' \<and> m ! i' ! j' = None
              \<and> (\<forall>r c. inGrid m r c \<and> m ! r ! c = None \<longrightarrow> r = i' \<and> c = j')"
    then have eq: "i = i'" "j = j'" using ij n by auto
    show "(?m' ! i' ! j' = Some 2 \<or> ?m' ! i' ! j' = Some 4)
              \<and> (\<forall>r c. inGrid m r c \<and> \<not> (r = i' \<and> c = j') \<longrightarrow> ?m' ! r ! c = m ! r ! c)"
      using nth ij v unfolding eq by auto
  qed
  have p6: "(\<forall>r c. inGrid m r c \<longrightarrow> m ! r ! c \<noteq> None) \<longrightarrow> ?m' = m \<and> stl (stl rng) = rng"
    using False unfolding emptyCells_Nil by blast
  from a p1 p2 p3 p4 p5 p6 show ?thesis by blast
qed

text \<open>
  An instance of C7: a two by two grid whose only empty cell is in row 0, column 1.
\<close>

theorem addRandomTile_changes_one_empty_cell_witness:
  "\<exists>m' rng'. addRandomTile [[Some 2, None], [Some 4, Some 8]] (sconst (1 / 2)) = Inr (m', rng')
     \<and> (m' ! 0 ! 1 = Some 2 \<or> m' ! 0 ! 1 = Some 4)
     \<and> m' ! 0 ! 0 = Some 2 \<and> m' ! 1 ! 0 = Some 4 \<and> m' ! 1 ! 1 = Some 8"
proof -
  let ?m = "[[Some 2, None], [Some 4, Some (8::int)]]"
  have e: "0 \<le> shd (sconst (1 / 2 :: real))" and f: "shd (sconst (1 / 2 :: real)) < 1" by simp_all
  have one: "inGrid ?m 0 1 \<and> ?m ! 0 ! 1 = None
      \<and> (\<forall>r c. inGrid ?m r c \<and> ?m ! r ! c = None \<longrightarrow> r = 0 \<and> c = 1)"
    by (auto simp: inGrid_def nth_Cons split: nat.splits)
  have g: "inGrid ?m 0 0 \<and> \<not> (0 = (0::nat) \<and> 0 = (1::nat))"
    "inGrid ?m 1 0 \<and> \<not> (1 = (0::nat) \<and> 0 = (1::nat))"
    "inGrid ?m 1 1 \<and> \<not> (1 = (0::nat) \<and> 1 = (1::nat))"
    by (simp_all add: inGrid_def)
  from addRandomTile_changes_one_empty_cell [OF e f, of ?m]
  obtain m' rng' where a: "addRandomTile ?m (sconst (1 / 2)) = Inr (m', rng')"
    and p: "\<forall>i j. inGrid ?m i j \<and> ?m ! i ! j = None
              \<and> (\<forall>r c. inGrid ?m r c \<and> ?m ! r ! c = None \<longrightarrow> r = i \<and> c = j)
            \<longrightarrow> (m' ! i ! j = Some 2 \<or> m' ! i ! j = Some 4)
              \<and> (\<forall>r c. inGrid ?m r c \<and> \<not> (r = i \<and> c = j) \<longrightarrow> m' ! r ! c = ?m ! r ! c)"
    by blast
  from p one have q: "(m' ! 0 ! 1 = Some 2 \<or> m' ! 0 ! 1 = Some 4)
      \<and> (\<forall>r c. inGrid ?m r c \<and> \<not> (r = 0 \<and> c = 1) \<longrightarrow> m' ! r ! c = ?m ! r ! c)"
    by blast
  then have "m' ! 0 ! 0 = ?m ! 0 ! 0" "m' ! 1 ! 0 = ?m ! 1 ! 0" "m' ! 1 ! 1 = ?m ! 1 ! 1"
    using g by blast+
  then show ?thesis using a q by auto
qed

section \<open>Properties of the game state\<close>

lemma checkGameOver_iff:
  "checkGameOver m \<longleftrightarrow> (\<exists>i<length m. \<exists>j<length (m ! i). m ! i ! j = Some 128)"
proof -
  have "checkGameOver m \<longleftrightarrow> (\<exists>row\<in>set m. Some 128 \<in> set row)"
    by (auto simp: checkGameOver_def)
  also have "\<dots> \<longleftrightarrow> (\<exists>i<length m. \<exists>j<length (m ! i). m ! i ! j = Some 128)"
    by (metis in_set_conv_nth)
  finally show ?thesis .
qed

lemma dirMap_arrow:
  "dirMap key = Some d \<Longrightarrow> key \<in> set [''ArrowUp'', ''ArrowRight'', ''ArrowDown'', ''ArrowLeft'']"
  by (auto simp: dirMap_def split: if_splits)

text \<open>
  Claim C5: the game is over exactly when some cell of the current grid holds 128. The flag
  is a function of the current grid, so after an undo it is again the answer for the grid
  that the undo restored (the last snapshot of the history, or the same grid when the
  history is empty).
\<close>

theorem isGameOver_iff_128_tile:
  "(checkGameOver m \<longleftrightarrow> (\<exists>i<length m. \<exists>j<length (m ! i). m ! i ! j = Some 128))
   \<and> (isGameOver s \<longleftrightarrow> (\<exists>i<length (map2048 s). \<exists>j<length (map2048 s ! i).
          map2048 s ! i ! j = Some 128))
   \<and> (isGameOver (handleUndo s) \<longleftrightarrow>
        (\<exists>i<length (map2048 (handleUndo s)). \<exists>j<length (map2048 (handleUndo s) ! i).
          map2048 (handleUndo s) ! i ! j = Some 128))
   \<and> (undoHistory s \<noteq> [] \<longrightarrow> map2048 (handleUndo s) = last (undoHistory s))
   \<and> (undoHistory s = [] \<longrightarrow> handleUndo s = s)"
  by (simp add: checkGameOver_iff isGameOver_def handleUndo_def last_conv_nth)

text \<open>
  Instances of C5: a grid with a 128 tile, one without, and an undo that leaves a finished
  game for the grid before it.
\<close>

theorem isGameOver_iff_128_tile_witness:
  "checkGameOver [[Some 2, None], [None, Some 128]]
   \<and> \<not> checkGameOver [[Some 2, None], [None, Some 64]]
   \<and> \<not> isGameOver \<lparr>map2048 = [[Some 2, Some 128]], undoHistory = [[[Some 64, Some 64]]]\<rparr>
       = isGameOver (handleUndo \<lparr>map2048 = [[Some 2, Some 128]], undoHistory = [[[Some 64, Some 64]]]\<rparr>)
   \<and> map2048 (handleUndo \<lparr>map2048 = [[Some 2, Some 128]], undoHistory = [[[Some 64, Some 64]]]\<rparr>)
       = [[Some 64, Some 64]]"
proof -
  let ?s = "\<lparr>map2048 = [[Some 2, Some 128]], undoHistory = [[[Some 64, Some 64]]]\<rparr>"
  have a: "undoHistory ?s \<noteq> []" by simp
  have b: "\<exists>i<length [[Some 2, None], [None, Some (128::int)]].
      \<exists>j<length ([[Some 2, None], [None, Some (128::int)]] ! i).
        [[Some 2, None], [None, Some (128::int)]] ! i ! j = Some 128"
    by (intro exI [of _ 1] conjI) simp_all
  have c: "checkGameOver [[Some 2, None], [None, Some 128]]"
    using b isGameOver_iff_128_tile [of "[[Some 2, None], [None, Some 128]]" ?s] by blast
  have d: "map2048 (handleUndo ?s) = [[Some 64, Some 64]]"
    using a isGameOver_iff_128_tile [of "[]" ?s] by simp
  show ?thesis using c d by (simp add: isGameOver_def checkGameOver_def)
qed

text \<open>
  Claim C6: when the move for an arrow key returns with \<^verbatim>\<open>isMoved\<close> false, the handler
  leaves the state as it is: same grid, same history, and no draw from the random source.
\<close>

theorem handleKey_unchanged_move_is_noop:
  assumes "dirMap key = Some d"
    and "moveMapIn2048Rule (map2048 s) d = Inr mv"
    and "\<not> isMoved mv"
  shows "handleKey s key rng = Inr (s, rng)"
  using assms dirMap_arrow [OF assms(1)] by (simp add: handleKey_def)

text \<open>
  An instance of C6: every tile already rests against the left edge.
\<close>

theorem handleKey_unchanged_move_is_noop_witness:
  "handleKey \<lparr>map2048 = [[Some 2, None], [Some 4, Some 2]], undoHistory = []\<rparr>
      ''ArrowLeft'' (sconst (1 / 2))
   = Inr (\<lparr>map2048 = [[Some 2, None], [Some 4, Some 2]], undoHistory = []\<rparr>, sconst (1 / 2))"
proof -
  let ?s = "\<lparr>map2048 = [[Some 2, None], [Some 4, Some 2]], undoHistory = []\<rparr>"
  let ?mv = "\<lparr>result = [[Some 2, None], [Some 4, Some 2]], isMoved = False\<rparr>"
  have a: "dirMap ''ArrowLeft'' = Some Left" by (simp add: dirMap_def)
  have b: "moveMapIn2048Rule (map2048 ?s) Left = Inr ?mv" by code_simp
  have c: "\<not> isMoved ?mv" by simp
  show ?thesis by (rule handleKey_unchanged_move_is_noop [OF a b c])
qed

text \<open>
  Claim C8: while the game is over the handler is a no-op for every key: it returns before
  the move is computed, so the grid, the history and the random source stay as they are.
\<close>

theorem handleKey_over_is_noop:
  assumes "isGameOver s"
  shows "handleKey s key rng = Inr (s, rng)"
  using assms by (simp add: handleKey_def)

text \<open>
  Instances of C8: a finished game in which a move to the left would slide a tile, and a
  finished game on a grid that is not rectangular, where the move itself would throw.
\<close>

theorem handleKey_over_is_noop_witness:
  "handleKey \<lparr>map2048 = [[Some 128, None, Some 2, None]],
               undoHistory = [[[Some 64, Some 64, None, None]]]\<rparr> ''ArrowLeft'' (sconst (1 / 2))
     = Inr (\<lparr>map2048 = [[Some 128, None, Some 2, None]],
               undoHistory = [[[Some 64, Some 64, None, None]]]\<rparr>, sconst (1 / 2))
   \<and> moveMapIn2048Rule [[Some 128], [Some 2, Some 2]] Left = Inl (Error ''Map is not N by M'')
   \<and> handleKey \<lparr>map2048 = [[Some 128], [Some 2, Some 2]], undoHistory = []\<rparr>
         ''ArrowLeft'' (sconst (1 / 2))
     = Inr (\<lparr>map2048 = [[Some 128], [Some 2, Some 2]], undoHistory = []\<rparr>, sconst (1 / 2))"
proof -
  have a: "isGameOver \<lparr>map2048 = [[Some 128, None, Some 2, None]],
               undoHistory = [[[Some 64, Some 64, None, None]]]\<rparr>"
    by (simp add: isGameOver_def checkGameOver_def)
  have b: "isGameOver \<lparr>map2048 = [[Some 128], [Some 2, Some 2]], undoHistory = []\<rparr>"
    by (simp add: isGameOver_def checkGameOver_def)
  have c: "moveMapIn2048Rule [[Some 128], [Some 2, Some 2]] Left = Inl (Error ''Map is not N by M'')"
    by (simp add: moveMapIn2048Rule_def validateMapIsNByM_def)
  show ?thesis
    using handleKey_over_is_noop [OF a, of "''ArrowLeft''" "sconst (1 / 2)"]
      handleKey_over_is_noop [OF b, of "''ArrowLeft''" "sconst (1 / 2)"] c
    by simp
qed

text \<open>
  Claim C2, as the code has it: in a game that is not over, when the move for an arrow key
  returns with \<^verbatim>\<open>isMoved\<close> true, the handler followed at once by an undo gives back
  the grid that was current before the move, and the history as it was.
\<close>

theorem handleKey_then_handleUndo_restores:
  assumes "\<not> isGameOver s"
    and "dirMap key = Some d"
    and "moveMapIn2048Rule (map2048 s) d = Inr mv"
    and "isMoved mv"
    and "0 \<le> shd rng" and "shd rng < 1"
  shows "\<exists>s' rng'. handleKey s key rng = Inr (s', rng')
           \<and> map2048 (handleUndo s') = map2048 s
           \<and> handleUndo s' = s"
proof -
  obtain m' rng' where a: "addRandomTile (result mv) rng = Inr (m', rng')"
    using addRandomTile_returns [OF assms(5,6)] by blast
  let ?s' = "\<lparr>map2048 = m', undoHistory = undoHistory s @ [map2048 s]\<rparr>"
  have "handleKey s key rng = Inr (?s', rng')"
    using assms(1-4) a dirMap_arrow [OF assms(2)] by (simp add: handleKey_def)
  moreover have "handleUndo ?s' = s" by (simp add: handleUndo_def)
  ultimately show ?thesis by auto
qed

text \<open>
  An instance of C2: two 64 tiles merge to the left, a tile is added, and the undo returns
  to the two 64 tiles.
\<close>

theorem handleKey_then_handleUndo_restores_witness:
  "\<exists>s' rng'. handleKey \<lparr>map2048 = [[Some 64, Some 64, None, None]], undoHistory = []\<rparr>
                 ''ArrowLeft'' (sconst (1 / 2)) = Inr (s', rng')
     \<and> map2048 (handleUndo s') = [[Some 64, Some 64, None, None]]
     \<and> handleUndo s' = \<lparr>map2048 = [[Some 64, Some 64, None, None]], undoHistory = []\<rparr>"
proof -
  let ?s = "\<lparr>map2048 = [[Some 64, Some 64, None, None]], undoHistory = []\<rparr>"
  let ?mv = "\<lparr>result = [[Some 128, None, None, None]], isMoved = True\<rparr>"
  have a: "\<not> isGameOver ?s" by (simp add: isGameOver_def checkGameOver_def)
  have b: "dirMap ''ArrowLeft'' = Some Left" by (simp add: dirMap_def)
  have c: "moveMapIn2048Rule (map2048 ?s) Left = Inr ?mv" by code_simp
  have d: "isMoved ?mv" by simp
  have e: "0 \<le> shd (sconst (1 / 2 :: real))" and f: "shd (sconst (1 / 2 :: real)) < 1" by simp_all
  show ?thesis using handleKey_then_handleUndo_restores [OF a b c d e f] by simp
qed

text \<open>
  Claim C2 as it is worded, for every grid, does not hold in a finished game. The first
  line reaches such a state by one move from \<^verbatim>\<open>[[64,64,null,null]]\<close>. There a move to
  the left would change the grid, but the handler returns before computing it; the undo
  that follows pops the snapshot of the earlier move, and the grid with the 128 tile is
  gone.
\<close>

theorem handleKey_over_then_handleUndo_counterexample:
  "handleKey \<lparr>map2048 = [[Some 64, Some 64, None, None]], undoHistory = []\<rparr>
       ''ArrowLeft'' (sconst (1 / 2))
     = Inr (\<lparr>map2048 = [[Some 128, None, Some 2, None]],
              undoHistory = [[[Some 64, Some 64, None, None]]]\<rparr>, sconst (1 / 2))
   \<and> moveMapIn2048Rule [[Some 128, None, Some 2, None]] Left
     = Inr \<lparr>result = [[Some 128, Some 2, None, None]], isMoved = True\<rparr>
   \<and> handleKey \<lparr>map2048 = [[Some 128, None, Some 2, None]],
                undoHistory = [[[Some 64, Some 64, None, None]]]\<rparr> ''ArrowLeft'' (sconst (1 / 2))
     = Inr (\<lparr>map2048 = [[Some 128, None, Some 2, None]],
              undoHistory = [[[Some 64, Some 64, None, None]]]\<rparr>, sconst (1 / 2))
   \<and> map2048 (handleUndo \<lparr>map2048 = [[Some 128, None, Some 2, None]],
                undoHistory = [[[Some 64, Some 64, None, None]]]\<rparr>)
     = [[Some 64, Some 64, None, None]]
   \<and> map2048 (handleUndo \<lparr>map2048 = [[Some 128, None, Some 2, None]],
                undoHistory = [[[Some 64, Some 64, None, None]]]\<rparr>)
     \<noteq> [[Some 128, None, Some 2, None]]"
  by (simp add: handleKey_def isGameOver_def checkGameOver_def handleUndo_def
      moveMapIn2048Rule_def validateMapIsNByM_def rotateMapCounterClockwise_def moveLeft_def
      moveRowLeft_def reducer_def nullish_def addRandomTile_def emptyCells_def getRandomInt_def
      dirMap_def)

end
